theory Spec2Isabelle
  imports Main
begin

section \<open>Chess game-state components (gambitai/ecs/components.py)\<close>

text \<open>
  A shallow embedding of the component classes of \<^verbatim>\<open>gambitai.ecs.components\<close>.
  Enumerations are datatypes, dataclasses are records, Python's unbounded integers are
  \<^typ>\<open>int\<close>, strings are character lists. A method that mutates its object takes the
  object and returns the updated one. Every place where the Python can raise is a branch
  that returns \<open>Inl\<close> of the exception.
  The glyph table of \<^verbatim>\<open>Piece.__str__\<close> and the class \<^verbatim>\<open>Moveable\<close> take no part in the
  properties below and are left out.
\<close>

subsection \<open>Enumerations\<close>

datatype PieceType = PAWN | KNIGHT | BISHOP | ROOK | QUEEN | KING

datatype PieceColor = WHITE | BLACK

datatype GameStatus = ACTIVE | CHECK | CHECKMATE | STALEMATE | DRAW

text \<open>The exceptions that the modelled methods can raise.\<close>

datatype py_error = IndexError | TypeError

subsection \<open>Python string and sequence primitives\<close>

text \<open>
  Subscription \<^verbatim>\<open>seq[i]\<close> of a list or string: a negative index counts from the end,
  an index outside \<open>-len .. len - 1\<close> raises \<^verbatim>\<open>IndexError\<close>.
\<close>

definition getitem :: "'a list \<Rightarrow> int \<Rightarrow> py_error + 'a" where
  "getitem xs i =
     (let n = int (length xs);
          j = (if i < 0 then i + n else i)
      in if j < 0 \<or> n \<le> j then Inl IndexError else Inr (xs ! nat j))"

text \<open>\<^verbatim>\<open>str.lower\<close>, \<^verbatim>\<open>str.upper\<close> and the cased-character test, on ASCII.\<close>

definition ascii_uppercase :: string where
  "ascii_uppercase = ''ABCDEFGHIJKLMNOPQRSTUVWXYZ''"

definition ascii_lowercase :: string where
  "ascii_lowercase = ''abcdefghijklmnopqrstuvwxyz''"

definition char_lower :: "char \<Rightarrow> char" where
  "char_lower c =
     (case map_of (zip ascii_uppercase ascii_lowercase) c of
        Some d \<Rightarrow> d
      | None \<Rightarrow> c)"

definition char_upper :: "char \<Rightarrow> char" where
  "char_upper c =
     (case map_of (zip ascii_lowercase ascii_uppercase) c of
        Some d \<Rightarrow> d
      | None \<Rightarrow> c)"

definition is_lower :: "char \<Rightarrow> bool" where
  "is_lower c = (c \<in> set ascii_lowercase)"

definition is_upper :: "char \<Rightarrow> bool" where
  "is_upper c = (c \<in> set ascii_uppercase)"

definition lower :: "string \<Rightarrow> string" where
  "lower s = map char_lower s"

text \<open>
  \<^verbatim>\<open>str.title\<close>: a cased character that follows an uncased one (or starts the string)
  is put in upper case, a cased character that follows a cased one in lower case, and an
  uncased character is kept. The flag is "the previous character was cased".
\<close>

fun title_from :: "bool \<Rightarrow> string \<Rightarrow> string" where
  "title_from previous_is_cased [] = []"
| "title_from previous_is_cased (c # cs) =
     (if is_lower c then
        (if previous_is_cased then c else char_upper c) # title_from True cs
      else if is_upper c then
        (if previous_is_cased then char_lower c else c) # title_from True cs
      else c # title_from False cs)"

definition title :: "string \<Rightarrow> string" where
  "title s = title_from False s"

text \<open>\<^verbatim>\<open>v is not None\<close> for an optional value.\<close>

definition is_not_None :: "'a option \<Rightarrow> bool" where
  "is_not_None v = (case v of None \<Rightarrow> False | Some _ \<Rightarrow> True)"

subsection \<open>PieceType\<close>

text \<open>The member's \<^verbatim>\<open>name\<close>, and \<^verbatim>\<open>PieceType.__str__\<close>, which is \<^verbatim>\<open>self.name.title()\<close>.\<close>

fun PieceType_name :: "PieceType \<Rightarrow> string" where
  "PieceType_name PAWN = ''PAWN''"
| "PieceType_name KNIGHT = ''KNIGHT''"
| "PieceType_name BISHOP = ''BISHOP''"
| "PieceType_name ROOK = ''ROOK''"
| "PieceType_name QUEEN = ''QUEEN''"
| "PieceType_name KING = ''KING''"

definition PieceType_str :: "PieceType \<Rightarrow> string" where
  "PieceType_str t = title (PieceType_name t)"

subsection \<open>Position\<close>

record Position =
  x :: int
  y :: int

text \<open>
  \<^verbatim>\<open>Position.__str__\<close>: \<^verbatim>\<open>f"{files[self.x]}{ranks[self.y]}"\<close>. Each subscription can
  raise; the file is read first.
\<close>

definition files :: string where
  "files = ''abcdefgh''"

definition ranks :: string where
  "ranks = ''87654321''"

definition Position_str :: "Position \<Rightarrow> py_error + string" where
  "Position_str p =
     (case getitem files (x p) of
        Inl e \<Rightarrow> Inl e
      | Inr f \<Rightarrow>
          (case getitem ranks (y p) of
             Inl e \<Rightarrow> Inl e
           | Inr r \<Rightarrow> Inr [f, r]))"

text \<open>
  The class is declared \<^verbatim>\<open>@dataclass(frozen=True)\<close>, with every other option of the
  decorator at its default (\<^verbatim>\<open>eq=True\<close>, \<^verbatim>\<open>order=False\<close>). The decorator then generates
  \<^verbatim>\<open>__eq__\<close>, which compares the tuples of fields \<^verbatim>\<open>(x, y)\<close>, and (the class being frozen)
  \<^verbatim>\<open>__hash__\<close>, which is the built-in \<^verbatim>\<open>hash\<close> of that tuple; it generates none of
  \<^verbatim>\<open>__lt__\<close>, \<^verbatim>\<open>__le__\<close>, \<^verbatim>\<open>__gt__\<close>, \<^verbatim>\<open>__ge__\<close>, so that \<^verbatim>\<open>p < q\<close> on two positions
  raises \<^verbatim>\<open>TypeError\<close>. The built-in hash of a tuple is a parameter of the model.
\<close>

definition Position_eq :: "Position \<Rightarrow> Position \<Rightarrow> bool" where
  "Position_eq p q = ((x p, y p) = (x q, y q))"

definition Position_hash :: "(int \<times> int \<Rightarrow> int) \<Rightarrow> Position \<Rightarrow> int" where
  "Position_hash tuple_hash p = tuple_hash (x p, y p)"

definition Position_lt :: "Position \<Rightarrow> Position \<Rightarrow> py_error + bool" where
  "Position_lt p q = Inl TypeError"

definition Position_le :: "Position \<Rightarrow> Position \<Rightarrow> py_error + bool" where
  "Position_le p q = Inl TypeError"

definition Position_gt :: "Position \<Rightarrow> Position \<Rightarrow> py_error + bool" where
  "Position_gt p q = Inl TypeError"

definition Position_ge :: "Position \<Rightarrow> Position \<Rightarrow> py_error + bool" where
  "Position_ge p q = Inl TypeError"

text \<open>
  The ordering that the specification describes, for comparison with the code: positions
  compared as the pairs \<^verbatim>\<open>(x, y)\<close>, that is lexicographically.
\<close>

definition spec_Position_lt :: "Position \<Rightarrow> Position \<Rightarrow> bool" where
  "spec_Position_lt p q = (x p < x q \<or> (x p = x q \<and> y p < y q))"

subsection \<open>Piece\<close>

record Piece =
  type :: PieceType
  color :: PieceColor
  has_moved :: bool
  piece_value :: int

text \<open>
  \<^verbatim>\<open>Piece.to_fen\<close>: the letter of the piece type from a dictionary that has every member
  of the enumeration as a key, in lower case unless the colour is white.
\<close>

fun fen_symbol :: "PieceType \<Rightarrow> string" where
  "fen_symbol PAWN = ''P''"
| "fen_symbol KNIGHT = ''N''"
| "fen_symbol BISHOP = ''B''"
| "fen_symbol ROOK = ''R''"
| "fen_symbol QUEEN = ''Q''"
| "fen_symbol KING = ''K''"

definition to_fen :: "Piece \<Rightarrow> string" where
  "to_fen p =
     (let symbol = fen_symbol (type p)
      in if color p = WHITE then symbol else lower symbol)"

subsection \<open>Move\<close>

record Move =
  from_pos :: Position
  to_pos :: Position
  piece :: Piece
  captured_piece :: "Piece option"
  is_castling :: bool
  is_en_passant :: bool
  is_promotion :: bool
  promotion_piece :: "PieceType option"

text \<open>
  \<^verbatim>\<open>Move.__str__\<close>. The truth value of a \<^verbatim>\<open>Piece\<close> and of a \<^verbatim>\<open>PieceType\<close> member is
  always true (neither class defines \<^verbatim>\<open>__bool__\<close> or \<^verbatim>\<open>__len__\<close>), so
  \<^verbatim>\<open>if self.captured_piece\<close> and \<^verbatim>\<open>self.promotion_piece\<close> test for presence. The
  f-string formats the piece letter, then the source, then the destination; formatting
  a position calls \<^verbatim>\<open>Position.__str__\<close>, formatting the promotion piece calls
  \<^verbatim>\<open>PieceType.__str__\<close>.
\<close>

definition Move_str :: "Move \<Rightarrow> py_error + string" where
  "Move_str m =
     (if is_castling m then
        Inr (if x (to_pos m) > x (from_pos m) then ''O-O'' else ''O-O-O'')
      else
        (case Position_str (from_pos m) of
           Inl e \<Rightarrow> Inl e
         | Inr src \<Rightarrow>
             (case Position_str (to_pos m) of
                Inl e \<Rightarrow> Inl e
              | Inr dst \<Rightarrow>
                  (let s0 = to_fen (piece m) @ src @ dst;
                       s1 = (case captured_piece m of
                               Some c \<Rightarrow> s0 @ ''x'' @ to_fen c
                             | None \<Rightarrow> s0);
                       s2 = (if is_en_passant m then s1 @ ''e.p.'' else s1);
                       s3 = (if is_promotion m then
                               (case promotion_piece m of
                                  Some k \<Rightarrow> s2 @ ''='' @ PieceType_str k
                                | None \<Rightarrow> s2)
                             else s2)
                   in Inr s3))))"

subsection \<open>GameState\<close>

record GameState =
  current_turn :: PieceColor
  status :: GameStatus
  castling_rights :: "int list"
  en_passant_target :: "Position option"
  move_history :: "Move list"
  halfmove_clock :: int
  fullmove_number :: int
  captured_pieces :: "Piece list"
  check_positions :: "Position list"
  pieces :: "Position \<rightharpoonup> Piece"

text \<open>\<^verbatim>\<open>GameState()\<close>: every field at its default, each container a fresh empty one.\<close>

definition GameState_init :: GameState where
  "GameState_init =
     \<lparr>current_turn = WHITE,
      status = ACTIVE,
      castling_rights = [1, 1, 1, 1],
      en_passant_target = None,
      move_history = [],
      halfmove_clock = 0,
      fullmove_number = 1,
      captured_pieces = [],
      check_positions = [],
      pieces = Map.empty\<rparr>"

text \<open>
  \<^verbatim>\<open>GameState.add_move\<close>, statement by statement. The method has no \<^verbatim>\<open>raise\<close> and calls
  nothing that raises, so the model is a total function to the updated state. The two
  lists it appends to are separate objects (each default is a fresh list, and the element
  types differ), so an append to one is an update of that field alone.
\<close>

definition add_move :: "GameState \<Rightarrow> Move \<Rightarrow> GameState" where
  "add_move s m =
     (let s1 = s\<lparr>move_history := move_history s @ [m]\<rparr>;
          s2 = (if type (piece m) = PAWN \<or> is_not_None (captured_piece m)
                then s1\<lparr>halfmove_clock := 0\<rparr>
                else s1\<lparr>halfmove_clock := halfmove_clock s1 + 1\<rparr>);
          s3 = (if color (piece m) = BLACK
                then s2\<lparr>fullmove_number := fullmove_number s2 + 1\<rparr>
                else s2);
          s4 = (case captured_piece m of
                  Some c \<Rightarrow> s3\<lparr>captured_pieces := captured_pieces s3 @ [c]\<rparr>
                | None \<Rightarrow> s3)
      in s4\<lparr>current_turn := (if current_turn s4 = WHITE then BLACK else WHITE)\<rparr>)"

text \<open>\<^verbatim>\<open>GameState.get_last_move\<close> and \<^verbatim>\<open>GameState.is_in_check\<close>.\<close>

definition get_last_move :: "GameState \<Rightarrow> Move option" where
  "get_last_move s = (if move_history s \<noteq> [] then Some (last (move_history s)) else None)"

definition is_in_check :: "GameState \<Rightarrow> bool" where
  "is_in_check s = (length (check_positions s) > 0)"

text \<open>
  \<^verbatim>\<open>GameState.can_castle\<close>: the four side codes are compared in the order of the source;
  the subscription of \<^verbatim>\<open>castling_rights\<close> raises when the list is too short.
\<close>

definition can_castle :: "GameState \<Rightarrow> string \<Rightarrow> py_error + bool" where
  "can_castle s side =
     (if side = ''K'' then
        (case getitem (castling_rights s) 0 of Inl e \<Rightarrow> Inl e | Inr v \<Rightarrow> Inr (v = 1))
      else if side = ''Q'' then
        (case getitem (castling_rights s) 1 of Inl e \<Rightarrow> Inl e | Inr v \<Rightarrow> Inr (v = 1))
      else if side = ''k'' then
        (case getitem (castling_rights s) 2 of Inl e \<Rightarrow> Inl e | Inr v \<Rightarrow> Inr (v = 1))
      else if side = ''q'' then
        (case getitem (castling_rights s) 3 of Inl e \<Rightarrow> Inl e | Inr v \<Rightarrow> Inr (v = 1))
      else Inr False)"

subsection \<open>Values of the test suite\<close>

text \<open>
  The pieces and moves that \<^verbatim>\<open>tests/test_components.py\<close> builds. \<open>new_move\<close> is the
  constructor \<^verbatim>\<open>Move(from_pos, to_pos, piece)\<close> with the remaining fields at their
  defaults.
\<close>

definition white_pawn :: Piece where
  "white_pawn = \<lparr>type = PAWN, color = WHITE, has_moved = False, piece_value = 1\<rparr>"
definition black_pawn :: Piece where
  "black_pawn = \<lparr>type = PAWN, color = BLACK, has_moved = False, piece_value = 1\<rparr>"
definition new_move :: "Position \<Rightarrow> Position \<Rightarrow> Piece \<Rightarrow> Move" where
  "new_move src dst p =
     \<lparr>from_pos = src, to_pos = dst, piece = p, captured_piece = None,
      is_castling = False, is_en_passant = False, is_promotion = False,
      promotion_piece = None\<rparr>"
definition pawn_move :: Move where
  "pawn_move = new_move \<lparr>x = 0, y = 1\<rparr> \<lparr>x = 0, y = 2\<rparr> white_pawn"
definition knight_move :: Move where
  "knight_move = new_move \<lparr>x = 1, y = 0\<rparr> \<lparr>x = 2, y = 2\<rparr>
     \<lparr>type = KNIGHT, color = BLACK, has_moved = False, piece_value = 1\<rparr>"
definition capture_move :: Move where
  "capture_move = (new_move \<lparr>x = 2, y = 2\<rparr> \<lparr>x = 3, y = 3\<rparr>
     \<lparr>type = KNIGHT, color = WHITE, has_moved = False, piece_value = 1\<rparr>)
     \<lparr>captured_piece := Some black_pawn\<rparr>"
definition promotion_move :: Move where
  "promotion_move = (new_move \<lparr>x = 0, y = 1\<rparr> \<lparr>x = 0, y = 2\<rparr> white_pawn)
     \<lparr>is_promotion := True, promotion_piece := Some QUEEN\<rparr>"
definition en_passant_move :: Move where
  "en_passant_move = (new_move \<lparr>x = 0, y = 1\<rparr> \<lparr>x = 0, y = 2\<rparr> white_pawn)
     \<lparr>is_en_passant := True, captured_piece := Some black_pawn\<rparr>"
definition castling_move :: Move where
  "castling_move = (new_move \<lparr>x = 4, y = 0\<rparr> \<lparr>x = 6, y = 0\<rparr>
     \<lparr>type = KING, color = WHITE, has_moved = False, piece_value = 1\<rparr>)
     \<lparr>is_castling := True\<rparr>"

lemmas ex_defs = white_pawn_def black_pawn_def new_move_def pawn_move_def knight_move_def
  capture_move_def promotion_move_def en_passant_move_def castling_move_def


section \<open>Properties\<close>

subsection \<open>Python primitives\<close>

lemma getitem_in_range:
  "0 \<le> i \<Longrightarrow> i < int (length xs) \<Longrightarrow> getitem xs i = Inr (xs ! nat i)"
  by (simp add: getitem_def Let_def)

lemma getitem_Inr_in_set: "getitem xs i = Inr v \<Longrightarrow> v \<in> set xs"
  by (auto simp: getitem_def Let_def split: if_splits)

lemma is_not_None_iff: "is_not_None v \<longleftrightarrow> (\<exists>c. v = Some c)"
  by (cases v) (simp_all add: is_not_None_def)

text \<open>The string of each piece type is its name with only the first letter in upper case.\<close>

lemma PieceType_str_values:
  "PieceType_str PAWN = ''Pawn''"
  "PieceType_str KNIGHT = ''Knight''"
  "PieceType_str BISHOP = ''Bishop''"
  "PieceType_str ROOK = ''Rook''"
  "PieceType_str QUEEN = ''Queen''"
  "PieceType_str KING = ''King''"
  by (simp_all add: PieceType_str_def title_def is_lower_def is_upper_def char_lower_def
      char_upper_def ascii_lowercase_def ascii_uppercase_def)

lemma title_QUEEN: "title ''QUEEN'' = ''Queen''"
  using PieceType_str_values(5) by (simp add: PieceType_str_def)

subsection \<open>Position\<close>

text \<open>
  Claim C7. For \<open>0 \<le> i \<le> 7\<close> and \<open>0 \<le> j \<le> 7\<close> the string of the position \<open>(i, j)\<close> is
  the character at index \<open>i\<close> of \<^verbatim>\<open>abcdefgh\<close> followed by the character at index \<open>j\<close> of
  \<^verbatim>\<open>87654321\<close>; \<open>(0, 0)\<close> gives \<^verbatim>\<open>a8\<close> and \<open>(7, 7)\<close> gives \<^verbatim>\<open>h1\<close>.
\<close>

theorem Position_str_in_range:
  "(0 \<le> i \<and> i \<le> 7 \<and> 0 \<le> j \<and> j \<le> 7 \<longrightarrow>
      Position_str \<lparr>x = i, y = j\<rparr> = Inr [''abcdefgh'' ! nat i, ''87654321'' ! nat j])
   \<and> Position_str \<lparr>x = 0, y = 0\<rparr> = Inr ''a8''
   \<and> Position_str \<lparr>x = 7, y = 7\<rparr> = Inr ''h1''"
  by (simp add: Position_str_def files_def ranks_def getitem_in_range)

theorem Position_str_in_range_witness:
  "Position_str \<lparr>x = 4, y = 4\<rparr> = Inr ''e4'' \<and> Position_str \<lparr>x = 0, y = 7\<rparr> = Inr ''a1''"
  using Position_str_in_range [of 4 4] Position_str_in_range [of 0 7]
  by simp

text \<open>
  Outside that range the type does not validate: a negative index down to \<open>-8\<close> counts
  from the end of the string, and any other index raises.
\<close>

lemma Position_str_out_of_range:
  "Position_str \<lparr>x = -1, y = -8\<rparr> = Inr ''h8''"
  "Position_str \<lparr>x = 8, y = 0\<rparr> = Inl IndexError"
  "Position_str \<lparr>x = 0, y = -9\<rparr> = Inl IndexError"
  by (simp_all add: Position_str_def files_def ranks_def getitem_def)

text \<open>
  Claim C9, as stated: equality, ordering and hashing of positions are structural on
  \<open>(x, y)\<close>. The ordering part fails on the code: the class defines no ordering, so
  comparing \<open>(0, 0)\<close> with \<open>(1, 0)\<close> raises \<^verbatim>\<open>TypeError\<close> where the ordering by \<open>(x, y)\<close>
  would answer true.
\<close>

theorem Position_ordering_counterexample:
  "spec_Position_lt \<lparr>x = 0, y = 0\<rparr> \<lparr>x = 1, y = 0\<rparr>
   \<and> Position_lt \<lparr>x = 0, y = 0\<rparr> \<lparr>x = 1, y = 0\<rparr> = Inl TypeError
   \<and> Position_lt \<lparr>x = 0, y = 0\<rparr> \<lparr>x = 1, y = 0\<rparr>
       \<noteq> Inr (spec_Position_lt \<lparr>x = 0, y = 0\<rparr> \<lparr>x = 1, y = 0\<rparr>)"
  by (simp add: Position_lt_def spec_Position_lt_def)

text \<open>
  Claim C9, amended. Equality and hashing of positions are structural on \<open>(x, y)\<close>: two
  positions are equal if and only if their \<open>x\<close> and their \<open>y\<close> are equal, and equal
  positions have equal hashes (whatever the built-in hash of a tuple is). No ordering is
  defined: each of the four order comparisons on two positions raises \<^verbatim>\<open>TypeError\<close>.
\<close>

theorem Position_eq_hash:
  "(Position_eq c1 c2 \<longleftrightarrow> x c1 = x c2 \<and> y c1 = y c2)
   \<and> (Position_eq c1 c2 \<longleftrightarrow> c1 = c2)
   \<and> (Position_eq c1 c2 \<longrightarrow> Position_hash tuple_hash c1 = Position_hash tuple_hash c2)
   \<and> Position_lt c1 c2 = Inl TypeError
   \<and> Position_le c1 c2 = Inl TypeError
   \<and> Position_gt c1 c2 = Inl TypeError
   \<and> Position_ge c1 c2 = Inl TypeError"
  by (cases c1, cases c2)
    (simp add: Position_eq_def Position_hash_def Position_lt_def Position_le_def
      Position_gt_def Position_ge_def)

theorem Position_eq_hash_witness:
  "Position_eq \<lparr>x = 3, y = 5\<rparr> \<lparr>x = 3, y = 5\<rparr>
   \<and> \<not> Position_eq \<lparr>x = 3, y = 5\<rparr> \<lparr>x = 5, y = 3\<rparr>
   \<and> Position_hash (\<lambda>(a, b). 8 * a + b) \<lparr>x = 3, y = 5\<rparr> = 29"
  using Position_eq_hash [of "\<lparr>x = 3, y = 5\<rparr>" "\<lparr>x = 3, y = 5\<rparr>" "\<lambda>(a, b). 8 * a + b"]
    Position_eq_hash [of "\<lparr>x = 3, y = 5\<rparr>" "\<lparr>x = 5, y = 3\<rparr>"]
  by (simp add: Position_hash_def)

subsection \<open>Piece and Move\<close>

text \<open>The notation letter of every kind and colour of piece.\<close>

lemma to_fen_values:
  "to_fen p =
     (case (type p, color p) of
        (PAWN, WHITE) \<Rightarrow> ''P'' | (KNIGHT, WHITE) \<Rightarrow> ''N'' | (BISHOP, WHITE) \<Rightarrow> ''B''
      | (ROOK, WHITE) \<Rightarrow> ''R'' | (QUEEN, WHITE) \<Rightarrow> ''Q'' | (KING, WHITE) \<Rightarrow> ''K''
      | (PAWN, BLACK) \<Rightarrow> ''p'' | (KNIGHT, BLACK) \<Rightarrow> ''n'' | (BISHOP, BLACK) \<Rightarrow> ''b''
      | (ROOK, BLACK) \<Rightarrow> ''r'' | (QUEEN, BLACK) \<Rightarrow> ''q'' | (KING, BLACK) \<Rightarrow> ''k'')"
  by (cases "type p"; cases "color p")
    (simp_all add: to_fen_def lower_def char_lower_def ascii_lowercase_def ascii_uppercase_def)

lemma to_fen_no_equals: "CHR ''='' \<notin> set (to_fen p)"
  by (cases "type p"; cases "color p") (simp_all add: to_fen_values)

lemma Position_str_no_equals:
  assumes "Position_str p = Inr s"
  shows "CHR ''='' \<notin> set s"
proof -
  from assms obtain f r where f: "getitem files (x p) = Inr f"
    and r: "getitem ranks (y p) = Inr r" and s: "s = [f, r]"
    by (auto simp: Position_str_def split: sum.splits)
  from f have "f \<in> set files" by (rule getitem_Inr_in_set)
  then have "f \<noteq> CHR ''=''" by (auto simp: files_def)
  moreover from r have "r \<in> set ranks" by (rule getitem_Inr_in_set)
  then have "r \<noteq> CHR ''=''" by (auto simp: ranks_def)
  ultimately show ?thesis using s by auto
qed

text \<open>
  Claim C5. The string of a castling move is \<^verbatim>\<open>O-O\<close> when the destination file is greater
  than the source file and \<^verbatim>\<open>O-O-O\<close> otherwise. The string of any other move, whose
  source and destination have the strings \<open>src\<close> and \<open>dst\<close>, is the piece's notation
  letter, then \<open>src\<close>, then \<open>dst\<close>, then \<^verbatim>\<open>x\<close> and the captured piece's letter when a
  captured piece is present, then \<^verbatim>\<open>e.p.\<close> when the move is en passant, then \<^verbatim>\<open>=\<close> and
  the title-cased name of the promotion kind when the move is a promotion (and carries
  its promotion kind).
\<close>

theorem Move_str_format:
  "(is_castling m \<longrightarrow>
      Move_str m = Inr (if x (to_pos m) > x (from_pos m) then ''O-O'' else ''O-O-O''))
   \<and> (\<not> is_castling m \<and> Position_str (from_pos m) = Inr src
        \<and> Position_str (to_pos m) = Inr dst \<longrightarrow>
      Move_str m =
        Inr (to_fen (piece m) @ src @ dst
             @ (case captured_piece m of Some c \<Rightarrow> ''x'' @ to_fen c | None \<Rightarrow> [])
             @ (if is_en_passant m then ''e.p.'' else [])
             @ (if is_promotion m
                then (case promotion_piece m of
                        Some k \<Rightarrow> ''='' @ title (PieceType_name k)
                      | None \<Rightarrow> [])
                else [])))"
  by (simp add: Move_str_def Let_def PieceType_str_def split: option.split)

theorem Move_str_format_witness:
  "Move_str castling_move = Inr ''O-O''
   \<and> Move_str (castling_move\<lparr>to_pos := \<lparr>x = 2, y = 0\<rparr>\<rparr>) = Inr ''O-O-O''
   \<and> Move_str pawn_move = Inr ''Pa7a6''
   \<and> Move_str capture_move = Inr ''Nc6d5xp''
   \<and> Move_str en_passant_move = Inr ''Pa7a6xpe.p.''
   \<and> Move_str promotion_move = Inr ''Pa7a6=Queen''"
  using Move_str_format [of castling_move]
    Move_str_format [of "castling_move\<lparr>to_pos := \<lparr>x = 2, y = 0\<rparr>\<rparr>"]
    Move_str_format [of pawn_move "''a7''" "''a6''"]
    Move_str_format [of capture_move "''c6''" "''d5''"]
    Move_str_format [of en_passant_move "''a7''" "''a6''"]
    Move_str_format [of promotion_move "''a7''" "''a6''"]
  by (simp add: ex_defs Position_str_def getitem_def files_def ranks_def to_fen_values
      title_QUEEN)

text \<open>
  Claim C10. A move that is not castling, has \<open>is_promotion\<close> set and carries no
  promotion piece, and whose source and destination have the strings \<open>src\<close> and \<open>dst\<close>,
  renders without failing as the piece's letter, \<open>src\<close>, \<open>dst\<close> and the capture and
  en-passant markers that apply; the result holds no \<^verbatim>\<open>=\<close> at all.
\<close>

theorem Move_str_promotion_without_piece:
  "\<not> is_castling m \<and> is_promotion m \<and> promotion_piece m = None
   \<and> Position_str (from_pos m) = Inr src \<and> Position_str (to_pos m) = Inr dst \<longrightarrow>
   Move_str m =
     Inr (to_fen (piece m) @ src @ dst
          @ (case captured_piece m of Some c \<Rightarrow> ''x'' @ to_fen c | None \<Rightarrow> [])
          @ (if is_en_passant m then ''e.p.'' else []))
   \<and> (\<forall>r. Move_str m = Inr r \<longrightarrow> CHR ''='' \<notin> set r)"
  by (auto simp: Move_str_def Let_def to_fen_no_equals Position_str_no_equals
      split: option.split)

theorem Move_str_promotion_without_piece_witness:
  "Move_str (pawn_move\<lparr>is_promotion := True\<rparr>) = Inr ''Pa7a6''
   \<and> Move_str (en_passant_move\<lparr>is_promotion := True\<rparr>) = Inr ''Pa7a6xpe.p.''"
  using Move_str_promotion_without_piece
      [of "pawn_move\<lparr>is_promotion := True\<rparr>" "''a7''" "''a6''"]
    Move_str_promotion_without_piece
      [of "en_passant_move\<lparr>is_promotion := True\<rparr>" "''a7''" "''a6''"]
  by (simp add: ex_defs Position_str_def getitem_def files_def ranks_def to_fen_values)

subsection \<open>add_move\<close>

text \<open>
  Claim C1. After \<open>add_move s m\<close> the halfmove clock is 0 when the moved piece is a pawn
  or the move carries a captured piece, and the prior clock plus 1 otherwise, whatever
  the prior clock was.
\<close>

theorem add_move_halfmove_clock:
  "halfmove_clock (add_move s m) =
     (if type (piece m) = PAWN \<or> (\<exists>c. captured_piece m = Some c) then 0
      else halfmove_clock s + 1)"
  by (simp add: add_move_def Let_def is_not_None_iff split: option.split)

theorem add_move_halfmove_clock_witness:
  "halfmove_clock (add_move (GameState_init\<lparr>halfmove_clock := 7\<rparr>) pawn_move) = 0
   \<and> halfmove_clock (add_move (GameState_init\<lparr>halfmove_clock := 7\<rparr>) capture_move) = 0
   \<and> halfmove_clock (add_move (GameState_init\<lparr>halfmove_clock := 7\<rparr>) knight_move) = 8"
  using add_move_halfmove_clock [of "GameState_init\<lparr>halfmove_clock := 7\<rparr>" pawn_move]
    add_move_halfmove_clock [of "GameState_init\<lparr>halfmove_clock := 7\<rparr>" capture_move]
    add_move_halfmove_clock [of "GameState_init\<lparr>halfmove_clock := 7\<rparr>" knight_move]
  by (simp add: ex_defs GameState_init_def)

text \<open>
  Claim C2. \<open>add_move\<close> adds exactly 1 to the fullmove number if and only if the moved
  piece is black, and leaves it as it was otherwise. A fresh state starts at 1, stays at
  1 after a white move and reaches 2 after a black move that follows.
\<close>

theorem add_move_fullmove_number:
  "fullmove_number (add_move s m) =
     (if color (piece m) = BLACK then fullmove_number s + 1 else fullmove_number s)
   \<and> (fullmove_number (add_move s m) = fullmove_number s + 1 \<longleftrightarrow> color (piece m) = BLACK)
   \<and> fullmove_number GameState_init = 1
   \<and> (color (piece m1) = WHITE \<longrightarrow> fullmove_number (add_move GameState_init m1) = 1)
   \<and> (color (piece m1) = WHITE \<and> color (piece m2) = BLACK \<longrightarrow>
        fullmove_number (add_move (add_move GameState_init m1) m2) = 2)"
  by (simp add: add_move_def Let_def GameState_init_def split: option.split)

theorem add_move_fullmove_number_witness:
  "color (piece pawn_move) = WHITE \<and> color (piece knight_move) = BLACK
   \<and> fullmove_number (add_move GameState_init pawn_move) = 1
   \<and> fullmove_number (add_move (add_move GameState_init pawn_move) knight_move) = 2"
  using add_move_fullmove_number [of GameState_init pawn_move pawn_move knight_move]
  by (simp add: ex_defs)

text \<open>
  Claim C3. After \<open>add_move\<close>, whatever the colour of the moved piece, the colour to move
  is the opposite of the one before: white becomes black and black becomes white.
\<close>

theorem add_move_current_turn:
  "current_turn (add_move s m) = (case current_turn s of WHITE \<Rightarrow> BLACK | BLACK \<Rightarrow> WHITE)
   \<and> current_turn (add_move s m) \<noteq> current_turn s"
  by (cases "current_turn s") (simp_all add: add_move_def Let_def split: option.split)

theorem add_move_current_turn_witness:
  "current_turn (add_move GameState_init knight_move) = BLACK
   \<and> current_turn (add_move (add_move GameState_init knight_move) knight_move) = WHITE"
  using add_move_current_turn [of GameState_init knight_move]
    add_move_current_turn [of "add_move GameState_init knight_move" knight_move]
  by (simp add: GameState_init_def)

text \<open>
  Claim C4. \<open>add_move\<close> leaves \<open>pieces\<close>, \<open>check_positions\<close>, \<open>status\<close>,
  \<open>castling_rights\<close> and \<open>en_passant_target\<close> as they were: the new state is the old
  one with at most \<open>move_history\<close>, \<open>halfmove_clock\<close>, \<open>fullmove_number\<close>,
  \<open>captured_pieces\<close> and \<open>current_turn\<close> replaced. The operation has no failing branch:
  \<open>add_move\<close> is a total function to a state.
\<close>

theorem add_move_frame:
  "pieces (add_move s m) = pieces s
   \<and> check_positions (add_move s m) = check_positions s
   \<and> status (add_move s m) = status s
   \<and> castling_rights (add_move s m) = castling_rights s
   \<and> en_passant_target (add_move s m) = en_passant_target s
   \<and> (\<exists>mh hc fn cp ct.
         add_move s m =
           s\<lparr>move_history := mh, halfmove_clock := hc, fullmove_number := fn,
             captured_pieces := cp, current_turn := ct\<rparr>)"
proof -
  have frame: "pieces (add_move s m) = pieces s"
    "check_positions (add_move s m) = check_positions s"
    "status (add_move s m) = status s"
    "castling_rights (add_move s m) = castling_rights s"
    "en_passant_target (add_move s m) = en_passant_target s"
    by (simp_all add: add_move_def Let_def split: option.split)
  have "add_move s m =
      s\<lparr>move_history := move_history (add_move s m),
        halfmove_clock := halfmove_clock (add_move s m),
        fullmove_number := fullmove_number (add_move s m),
        captured_pieces := captured_pieces (add_move s m),
        current_turn := current_turn (add_move s m)\<rparr>"
    by (simp add: add_move_def Let_def split: option.split)
  then have "\<exists>mh hc fn cp ct.
         add_move s m =
           s\<lparr>move_history := mh, halfmove_clock := hc, fullmove_number := fn,
             captured_pieces := cp, current_turn := ct\<rparr>"
    by blast
  with frame show ?thesis by simp
qed

theorem add_move_frame_witness:
  "castling_rights (add_move GameState_init capture_move) = [1, 1, 1, 1]
   \<and> status (add_move GameState_init capture_move) = ACTIVE
   \<and> en_passant_target (add_move GameState_init capture_move) = None
   \<and> check_positions (add_move GameState_init capture_move) = []
   \<and> pieces (add_move GameState_init capture_move) = Map.empty"
  using add_move_frame [of GameState_init capture_move]
  by (simp add: GameState_init_def)

text \<open>
  Claim C8. \<open>add_move\<close> appends exactly one element, the captured piece, to
  \<open>captured_pieces\<close> when the move carries one and leaves the list (so its length) as it
  was when the move carries none; \<open>move_history\<close> is extended by the move in every
  case.
\<close>

theorem add_move_captured_pieces:
  "captured_pieces (add_move s m) =
     (case captured_piece m of
        Some c \<Rightarrow> captured_pieces s @ [c]
      | None \<Rightarrow> captured_pieces s)
   \<and> length (captured_pieces (add_move s m)) =
     (case captured_piece m of
        Some c \<Rightarrow> length (captured_pieces s) + 1
      | None \<Rightarrow> length (captured_pieces s))
   \<and> move_history (add_move s m) = move_history s @ [m]"
  by (simp add: add_move_def Let_def split: option.split)

theorem add_move_captured_pieces_witness:
  "captured_pieces (add_move GameState_init capture_move) = [black_pawn]
   \<and> move_history (add_move GameState_init capture_move) = [capture_move]
   \<and> captured_pieces (add_move GameState_init pawn_move) = []
   \<and> move_history (add_move GameState_init pawn_move) = [pawn_move]"
  using add_move_captured_pieces [of GameState_init capture_move]
    add_move_captured_pieces [of GameState_init pawn_move]
  by (simp add: GameState_init_def capture_move_def pawn_move_def new_move_def)

subsection \<open>can_castle\<close>

text \<open>
  Claim C6. \<open>can_castle\<close> answers with the castling-rights flag at index 0 for \<^verbatim>\<open>K\<close>, 1
  for \<^verbatim>\<open>Q\<close>, 2 for \<^verbatim>\<open>k\<close> and 3 for \<^verbatim>\<open>q\<close> (the flag being set when the entry is 1),
  wherever the list has that index, and with false, without failing, for every other
  string.
\<close>

theorem can_castle_lookup:
  "(0 < length (castling_rights s) \<longrightarrow>
      can_castle s ''K'' = Inr (castling_rights s ! 0 = 1))
   \<and> (1 < length (castling_rights s) \<longrightarrow>
      can_castle s ''Q'' = Inr (castling_rights s ! 1 = 1))
   \<and> (2 < length (castling_rights s) \<longrightarrow>
      can_castle s ''k'' = Inr (castling_rights s ! 2 = 1))
   \<and> (3 < length (castling_rights s) \<longrightarrow>
      can_castle s ''q'' = Inr (castling_rights s ! 3 = 1))
   \<and> (side \<noteq> ''K'' \<and> side \<noteq> ''Q'' \<and> side \<noteq> ''k'' \<and> side \<noteq> ''q'' \<longrightarrow>
      can_castle s side = Inr False)"
  by (simp add: can_castle_def getitem_in_range)

theorem can_castle_lookup_witness:
  "can_castle (GameState_init\<lparr>castling_rights := [0, 1, 1, 1]\<rparr>) ''K'' = Inr False
   \<and> can_castle (GameState_init\<lparr>castling_rights := [0, 1, 1, 1]\<rparr>) ''Q'' = Inr True
   \<and> can_castle (GameState_init\<lparr>castling_rights := [0, 1, 1, 1]\<rparr>) ''k'' = Inr True
   \<and> can_castle (GameState_init\<lparr>castling_rights := [0, 1, 1, 1]\<rparr>) ''q'' = Inr True
   \<and> can_castle (GameState_init\<lparr>castling_rights := [0, 1, 1, 1]\<rparr>) ''KQ'' = Inr False
   \<and> can_castle (GameState_init\<lparr>castling_rights := [0, 1, 1, 1]\<rparr>) [] = Inr False"
  using can_castle_lookup [of "GameState_init\<lparr>castling_rights := [0, 1, 1, 1]\<rparr>" "''KQ''"]
    can_castle_lookup [of "GameState_init\<lparr>castling_rights := [0, 1, 1, 1]\<rparr>" "[]"]
  by simp

text \<open>
  The four flags are there in every state that the constructor's default or the test
  suite builds. On a list with fewer entries the subscription raises for a side code
  whose index is missing, while an unknown code still answers false.
\<close>

lemma can_castle_short_list:
  "can_castle (GameState_init\<lparr>castling_rights := []\<rparr>) ''K'' = Inl IndexError"
  "can_castle (GameState_init\<lparr>castling_rights := []\<rparr>) ''Z'' = Inr False"
  by (simp_all add: can_castle_def getitem_def)

end
